theory Spec2Isabelle
  imports Main "HOL-Library.Sublist" "HOL-Library.AList"
begin

section \<open>JavaScript values\<close>

text \<open>
  The library is JavaScript: every argument, response and error is a dynamically typed
  value. \<open>JNum\<close> holds the integral numbers (the only ones the modelled code computes
  with), \<open>JFun\<close> a function value, named by a label and opaque: calling it is recorded
  as an event and it returns normally. An \<open>Error\<close> object is an object with a
  \<open>name\<close> and a \<open>message\<close>.
\<close>

datatype js =
    Undefined
  | Null
  | JBool bool
  | JNum int
  | JStr string
  | JArr "js list"
  | JObj "(string \<times> js) list"
  | JFun string

fun typeof_js :: "js \<Rightarrow> string" where
  "typeof_js Undefined = ''undefined''"
| "typeof_js Null = ''object''"
| "typeof_js (JBool b) = ''boolean''"
| "typeof_js (JNum n) = ''number''"
| "typeof_js (JStr s) = ''string''"
| "typeof_js (JArr xs) = ''object''"
| "typeof_js (JObj kvs) = ''object''"
| "typeof_js (JFun f) = ''function''"

fun truthy :: "js \<Rightarrow> bool" where
  "truthy Undefined = False"
| "truthy Null = False"
| "truthy (JBool b) = b"
| "truthy (JNum n) = (n \<noteq> 0)"
| "truthy (JStr s) = (s \<noteq> [])"
| "truthy (JArr xs) = True"
| "truthy (JObj kvs) = True"
| "truthy (JFun f) = True"

definition js_or :: "js \<Rightarrow> js \<Rightarrow> js" where
  \<comment> \<open>\<open>a || b\<close>\<close>
  "js_or a b = (if truthy a then a else b)"

definition type_error :: "string \<Rightarrow> js" where
  "type_error message = JObj [(''name'', JStr ''TypeError''), (''message'', JStr message)]"

definition reference_error :: "string \<Rightarrow> js" where
  "reference_error message = JObj [(''name'', JStr ''ReferenceError''), (''message'', JStr message)]"

text \<open>
  A computation either throws a value (\<open>Inl\<close>) or returns one (\<open>Inr\<close>);
  \<open>andThen\<close> sequences two of them, the first exception ending the evaluation.
\<close>

definition andThen :: "js + 'a \<Rightarrow> ('a \<Rightarrow> js + 'b) \<Rightarrow> js + 'b" where
  "andThen r f = (case r of Inl e \<Rightarrow> Inl e | Inr v \<Rightarrow> f v)"

subsection \<open>Conversion to a string\<close>

fun string_of_nat :: "nat \<Rightarrow> string" where
  "string_of_nat n =
     (if n < 10 then [char_of (48 + n)]
      else string_of_nat (n div 10) @ [char_of (48 + n mod 10)])"

declare string_of_nat.simps [simp del]

fun join :: "string \<Rightarrow> string list \<Rightarrow> string" where
  "join sep [] = []"
| "join sep [x] = x"
| "join sep (x # y # ys) = x @ sep @ join sep (y # ys)"

text \<open>
  \<open>'' + v\<close>. An array is joined with commas, a plain object prints as
  \<open>[object Object]\<close> (the default \<open>toString\<close>), and a function value prints as
  its label, which stands for its source text.
\<close>

fun to_string :: "js \<Rightarrow> string" where
  "to_string Undefined = ''undefined''"
| "to_string Null = ''null''"
| "to_string (JBool b) = (if b then ''true'' else ''false'')"
| "to_string (JNum n) =
     (if n < 0 then ''-'' @ string_of_nat (nat (- n)) else string_of_nat (nat n))"
| "to_string (JStr s) = s"
| "to_string (JArr xs) =
     join '','' (map (\<lambda>x. if x = Undefined \<or> x = Null then [] else to_string x) xs)"
| "to_string (JObj kvs) = ''[object Object]''"
| "to_string (JFun f) = f"

subsection \<open>Properties\<close>

text \<open>
  A plain object inherits from \<open>Object.prototype\<close>: a name that is not an own
  property is looked up there, and the name \<open>__proto__\<close> is an accessor that reads
  the prototype itself. Reading a property of \<open>undefined\<close> or \<open>null\<close> throws a
  \<open>TypeError\<close>.

  On arrays, strings, numbers, booleans and functions \<open>get_prop\<close> models that same
  \<open>Object.prototype\<close> layer only. The code reads such values under the names
  \<open>error\<close>, \<open>ok\<close>, \<open>version\<close>, \<open>total_rows\<close>, \<open>offset\<close>, \<open>rows\<close>,
  \<open>purged\<close>, \<open>id\<close>, \<open>value\<close> and \<open>rev\<close>, which none of their own prototypes
  defines; indexed reads go through \<open>index_read\<close>.
\<close>

definition object_prototype :: "(string \<times> js) list" where
  "object_prototype =
     [(''constructor'', JFun ''Object''),
      (''toString'', JFun ''Object.prototype.toString''),
      (''toLocaleString'', JFun ''Object.prototype.toLocaleString''),
      (''valueOf'', JFun ''Object.prototype.valueOf''),
      (''hasOwnProperty'', JFun ''Object.prototype.hasOwnProperty''),
      (''isPrototypeOf'', JFun ''Object.prototype.isPrototypeOf''),
      (''propertyIsEnumerable'', JFun ''Object.prototype.propertyIsEnumerable''),
      (''__defineGetter__'', JFun ''Object.prototype.__defineGetter__''),
      (''__lookupGetter__'', JFun ''Object.prototype.__lookupGetter__''),
      (''__defineSetter__'', JFun ''Object.prototype.__defineSetter__''),
      (''__lookupSetter__'', JFun ''Object.prototype.__lookupSetter__'')]"

definition inherited :: "string \<Rightarrow> js" where
  "inherited k =
     (if k = ''__proto__'' then JObj object_prototype
      else case map_of object_prototype k of Some f \<Rightarrow> f | None \<Rightarrow> Undefined)"

definition own_or_inherited :: "(string \<times> js) list \<Rightarrow> string \<Rightarrow> js" where
  \<comment> \<open>\<open>object[k]\<close> on a plain object\<close>
  "own_or_inherited kvs k = (case map_of kvs k of Some v \<Rightarrow> v | None \<Rightarrow> inherited k)"

fun get_prop :: "js \<Rightarrow> string \<Rightarrow> js + js" where
  "get_prop Undefined k = Inl (type_error (''Cannot read property '' @ k @ '' of undefined''))"
| "get_prop Null k = Inl (type_error (''Cannot read property '' @ k @ '' of null''))"
| "get_prop (JObj kvs) k = Inr (own_or_inherited kvs k)"
| "get_prop v k = Inr (inherited k)"

text \<open>
  \<open>object[k] = v\<close> on a plain object. An own property is created or overwritten,
  except under the name \<open>__proto__\<close> when the object has no own property of that
  name: the inherited setter then ignores a primitive \<open>v\<close>, and the object is
  unchanged. (An object-valued \<open>v\<close> would replace the prototype; the modelled code
  stores strings.)
\<close>

definition put_prop :: "(string \<times> js) list \<Rightarrow> string \<Rightarrow> js \<Rightarrow> (string \<times> js) list" where
  "put_prop kvs k v =
     (if k = ''__proto__'' \<and> map_of kvs k = None then kvs else AList.update k v kvs)"

text \<open>
  \<open>v[i]\<close> for a number \<open>i\<close>: an element of an array, a one-character string of a
  string, the property named by the decimal digits of \<open>i\<close> of a plain object;
  \<open>undefined\<close> out of range.
\<close>

fun index_read :: "js \<Rightarrow> nat \<Rightarrow> js + js" where
  "index_read Undefined i = Inl (type_error ''Cannot read property of undefined'')"
| "index_read Null i = Inl (type_error ''Cannot read property of null'')"
| "index_read (JArr xs) i = Inr (if i < length xs then xs ! i else Undefined)"
| "index_read (JStr s) i = Inr (if i < length s then JStr [s ! i] else Undefined)"
| "index_read (JObj kvs) i = Inr (own_or_inherited kvs (string_of_nat i))"
| "index_read v i = Inr Undefined"

subsection \<open>Calls\<close>

text \<open>
  Calling a function value is observed as an event: the callee and its arguments.
  Calling anything else throws a \<open>TypeError\<close>.
\<close>

datatype event = Invoked js "js list"

definition call :: "js \<Rightarrow> js list \<Rightarrow> js + event" where
  "call f args =
     (if typeof_js f = ''function'' then Inr (Invoked f args)
      else Inl (type_error (to_string f @ '' is not a function'')))"

type_synonym continuation = "js \<Rightarrow> js \<Rightarrow> js + event"

section \<open>nodecouch.js: the connection and its request dispatcher\<close>

text \<open>
  The constructor keeps the four connection settings, each argument falling back to
  the setting of the same name of \<open>config.js\<close> (a file of constants, taken as the
  parameter \<open>defaultOptions\<close>), and the regular expression \<open>_methodMatch\<close>.
\<close>

record options =
  opt_host :: js
  opt_port :: js
  opt_username :: js
  opt_password :: js

definition nodecouch :: "options \<Rightarrow> js \<Rightarrow> js \<Rightarrow> js \<Rightarrow> js \<Rightarrow> options" where
  "nodecouch defaultOptions host port username password =
     \<lparr> opt_host = js_or host (opt_host defaultOptions),
       opt_port = js_or port (opt_port defaultOptions),
       opt_username = js_or username (opt_username defaultOptions),
       opt_password = js_or password (opt_password defaultOptions) \<rparr>"

text \<open>
  \<open>/^GET|PUT|POST|DELETE|HEAD|COPY?/i\<close>. The alternation binds weakest, so the
  anchor \<open>^\<close> belongs to the first alternative only and the \<open>?\<close> to the letter
  \<open>Y\<close> only; nothing anchors the end. A string matches when, letter case ignored,
  it starts with \<open>GET\<close>, or contains \<open>PUT\<close>, \<open>POST\<close>, \<open>DELETE\<close>, \<open>HEAD\<close>
  or \<open>COP\<close> anywhere. Case is ignored by comparing upper-case forms.
\<close>

definition to_upper :: "char \<Rightarrow> char" where
  "to_upper c =
     (let n = (of_char c :: nat) in if 97 \<le> n \<and> n \<le> 122 then char_of (n - 32) else c)"

definition methodMatch :: "string \<Rightarrow> bool" where
  "methodMatch s =
     (let u = map to_upper s
      in prefix ''GET'' u \<or> sublist ''PUT'' u \<or> sublist ''POST'' u \<or>
         sublist ''DELETE'' u \<or> sublist ''HEAD'' u \<or> sublist ''COP'' u)"

text \<open>
  The argument of \<open>request\<close>: an object with the properties \<open>method\<close>, \<open>path\<close>,
  \<open>headers\<close>, \<open>body\<close> and \<open>callback\<close>; a property that is not set reads as
  \<open>undefined\<close>. The callback is a function value for the dispatcher; the handles
  build it as a closure, which the model writes as a function of the two arguments it
  is called with.
\<close>

record 'c properties =
  p_method :: js
  p_path :: js
  p_headers :: js
  p_body :: js
  p_callback :: 'c

text \<open>The options object \<open>request\<close> hands to \<open>http.request\<close>.\<close>

record http_options =
  http_host :: js
  http_port :: js
  http_method :: js
  http_path :: string
  http_auth :: string
  http_headers :: js

definition request_options :: "options \<Rightarrow> 'c properties \<Rightarrow> http_options" where
  "request_options this properties =
     \<lparr> http_host = opt_host this,
       http_port = opt_port this,
       http_method =
         (if typeof_js (p_method properties) = ''string'' \<and>
             methodMatch (to_string (p_method properties))
          then p_method properties
          else JStr ''GET''),
       http_path = ''/'' @ to_string (js_or (p_path properties) (JStr [])),
       http_auth = to_string (opt_username this) @ '':'' @ to_string (opt_password this),
       http_headers = js_or (p_headers properties) Null \<rparr>"

text \<open>
  The body \<open>request\<close> writes to the outbound stream: the value it passes to
  \<open>JSON.stringify\<close>, when the body's type is \<open>object\<close>; nothing otherwise.
\<close>

definition request_written :: "'c properties \<Rightarrow> js option" where
  "request_written properties =
     (if typeof_js (p_body properties) = ''object'' then Some (p_body properties) else None)"

text \<open>
  The connection object as the \<open>error\<close> listener sees it through \<open>this\<close>: its two
  own properties, then the five methods \<open>nodecouch.prototype\<close> defines, then
  \<open>Object.prototype\<close>.
\<close>

definition nodecouch_prototype :: "(string \<times> js) list" where
  "nodecouch_prototype =
     [(''database'', JFun ''nodecouch.prototype.database''),
      (''getVersion'', JFun ''nodecouch.prototype.getVersion''),
      (''listDatabases'', JFun ''nodecouch.prototype.listDatabases''),
      (''_request'', JFun ''nodecouch.prototype._request''),
      (''request'', JFun ''nodecouch.prototype.request'')]"

definition this_object :: "options \<Rightarrow> js" where
  "this_object this =
     JObj ([(''_methodMatch'',
              JObj [(''source'', JStr ''^GET|PUT|POST|DELETE|HEAD|COPY?''),
                    (''ignoreCase'', JBool True)]),
            (''_options'',
              JObj [(''host'', opt_host this), (''port'', opt_port this),
                    (''username'', opt_username this), (''password'', opt_password this)])]
           @ nodecouch_prototype)"

text \<open>
  The listener \<open>request\<close> registers for the transport's \<open>error\<close> event:
  \<open>this._responseHandler(properties.callback, error, null)\<close>.
\<close>

definition request_on_error :: "options \<Rightarrow> js properties \<Rightarrow> js \<Rightarrow> js + event" where
  "request_on_error this properties error =
     andThen (get_prop (this_object this) ''_responseHandler'')
       (\<lambda>responseHandler. call responseHandler [p_callback properties, error, Null])"

text \<open>
  \<open>_request\<close>, at the response's \<open>end\<close> event: the chunks received are
  concatenated and parsed; \<open>JSON.parse\<close> is the platform's, a parameter here, that
  returns the parsed value or throws. The \<open>try\<close> block covers the parse, the two
  reads of \<open>content.error\<close> and the call of the callback; the \<open>catch\<close> clause
  calls the callback with what was thrown.
\<close>

definition request_on_end ::
    "(string \<Rightarrow> js + js) \<Rightarrow> js \<Rightarrow> string list \<Rightarrow> js + event" where
  "request_on_end JSON_parse callback chunks =
     (case andThen (JSON_parse (concat chunks)) (\<lambda>content.
             andThen (get_prop content ''error'') (\<lambda>content_error.
               call callback
                 [if truthy content_error then content else Null,
                  if \<not> truthy content_error then content else Null])) of
        Inl error \<Rightarrow> call callback [error, Null]
      | Inr delivered \<Rightarrow> Inr delivered)"

text \<open>\<open>getVersion\<close>: the request it issues, with the closure it passes as callback.\<close>

definition getVersion_callback :: "js \<Rightarrow> continuation" where
  "getVersion_callback callback error response =
     andThen (if response \<noteq> Null then get_prop response ''version'' else Inr response)
       (\<lambda>response'. call callback [error, response'])"

definition nodecouch_getVersion :: "js \<Rightarrow> continuation properties" where
  "nodecouch_getVersion callback =
     \<lparr> p_method = JStr ''GET'', p_path = Undefined, p_headers = Undefined,
       p_body = Undefined, p_callback = getVersion_callback callback \<rparr>"

text \<open>
  \<open>listDatabases\<close>. The loop reads \<open>response[i]\<close> until it is falsy; an element
  whose first character is an underscore is spliced out and the index stays (\<open>--i\<close>
  then \<open>++i\<close>). \<open>substr\<close> is a method of strings only and \<open>splice\<close> of arrays only:
  calling either on another value throws a \<open>TypeError\<close>.
\<close>

fun substr01 :: "js \<Rightarrow> js + string" where
  "substr01 (JStr s) = Inr (take 1 s)"
| "substr01 v = Inl (type_error ''undefined is not a function'')"

fun splice1 :: "js \<Rightarrow> nat \<Rightarrow> js + js" where
  "splice1 (JArr xs) i = Inr (JArr (take i xs @ drop (Suc i) xs))"
| "splice1 v i = Inl (type_error ''undefined is not a function'')"

text \<open>
  Both loops of the library run an index upwards while the element read is truthy, so
  they end: a truthy element lies below the \<open>extent\<close> of the value read, which for a
  plain object is bounded through the numbers its property names spell.
\<close>

definition nat_of_digits :: "string \<Rightarrow> nat" where
  "nat_of_digits s = foldl (\<lambda>a c. 10 * a + (of_char c - 48)) 0 s"

definition extent :: "js \<Rightarrow> nat" where
  "extent v =
     (case v of
        JArr xs \<Rightarrow> length xs
      | JStr s \<Rightarrow> length s
      | JObj kvs \<Rightarrow> Suc (Max (insert 0 (nat_of_digits ` fst ` set kvs)))
      | _ \<Rightarrow> 0)"

lemma nat_of_digits_string_of_nat: "nat_of_digits (string_of_nat n) = n"
proof (induction n rule: string_of_nat.induct)
  case (1 n)
  show ?case
  proof (cases "n < 10")
    case True
    then show ?thesis
      by (subst string_of_nat.simps) (simp add: nat_of_digits_def)
  next
    case False
    with 1 have ih: "nat_of_digits (string_of_nat (n div 10)) = n div 10" by simp
    have m: "(48 + n mod 10) mod 256 = 48 + n mod 10"
      by (rule mod_less) arith
    from False show ?thesis
      using ih by (subst string_of_nat.simps) (simp add: nat_of_digits_def m)
  qed
qed

lemma string_of_nat_last:
  "string_of_nat i \<noteq> [] \<and> of_char (last (string_of_nat i)) = (48 + i mod 10 :: nat)"
  by (subst string_of_nat.simps, subst (2) string_of_nat.simps) simp

lemma string_of_nat_neq:
  assumes "\<not> (48 \<le> (of_char (last k) :: nat) \<and> (of_char (last k) :: nat) \<le> 57)"
  shows "string_of_nat i \<noteq> k"
proof
  assume "string_of_nat i = k"
  with string_of_nat_last [of i] have "(of_char (last k) :: nat) = 48 + i mod 10" by simp
  moreover have "i mod 10 < 10" by simp
  ultimately show False using assms by linarith
qed

lemma inherited_digits: "inherited (string_of_nat i) = Undefined"
  by (simp add: inherited_def object_prototype_def string_of_nat_neq)

lemma index_read_extent:
  assumes "index_read v i = Inr el" and "truthy el"
  shows "i < extent v"
proof (cases v)
  case (JObj kvs)
  with assms have "own_or_inherited kvs (string_of_nat i) = el" by simp
  with assms(2) inherited_digits [of i] obtain w where "map_of kvs (string_of_nat i) = Some w"
    by (auto simp: own_or_inherited_def split: option.splits)
  then have "string_of_nat i \<in> fst ` set kvs"
    by (metis map_of_SomeD fst_conv image_eqI)
  then have "nat_of_digits (string_of_nat i) \<in> insert 0 (nat_of_digits ` fst ` set kvs)"
    by blast
  then have "nat_of_digits (string_of_nat i) \<le> Max (insert 0 (nat_of_digits ` fst ` set kvs))"
    by (intro Max_ge) auto
  with JObj show ?thesis
    by (simp add: extent_def nat_of_digits_string_of_nat)
qed (use assms in \<open>auto simp: extent_def split: if_splits\<close>)

function listDatabases_loop :: "nat \<Rightarrow> js \<Rightarrow> js + js" where
  "listDatabases_loop i response =
     (case index_read response i of
        Inl e \<Rightarrow> Inl e
      | Inr el \<Rightarrow>
          if truthy el then
            (case substr01 el of
               Inl e \<Rightarrow> Inl e
             | Inr c \<Rightarrow>
                 if c = ''_'' then
                   (case splice1 response i of
                      Inl e \<Rightarrow> Inl e
                    | Inr response' \<Rightarrow> listDatabases_loop i response')
                 else listDatabases_loop (Suc i) response)
          else Inr response)"
  by pat_completeness auto
termination listDatabases_loop
proof (relation "measure (\<lambda>(i, response). 2 * extent response - i)", goal_cases)
  case 1
  show ?case by simp
next
  case (2 i response el c response')
  then have "i < extent response" by (auto dest: index_read_extent)
  moreover from 2 obtain xs
    where "response = JArr xs" "response' = JArr (take i xs @ drop (Suc i) xs)"
    by (cases response) auto
  ultimately show ?case by (auto simp: extent_def)
next
  case (3 i response el c)
  then have "i < extent response" by (auto dest: index_read_extent)
  then show ?case by simp
qed

declare listDatabases_loop.simps [simp del]

definition listDatabases_callback :: "js \<Rightarrow> js \<Rightarrow> continuation" where
  "listDatabases_callback callback noCouchRelated error response =
     andThen
       (if error = Null \<and> response \<noteq> Null \<and> noCouchRelated = JBool True
        then listDatabases_loop 0 response
        else Inr response)
       (\<lambda>response'. call callback [error, response'])"

definition nodecouch_listDatabases :: "js \<Rightarrow> js \<Rightarrow> continuation properties" where
  "nodecouch_listDatabases callback noCouchRelated =
     \<lparr> p_method = JStr ''GET'', p_path = JStr ''_all_dbs'', p_headers = Undefined,
       p_body = Undefined, p_callback = listDatabases_callback callback noCouchRelated \<rparr>"

section \<open>database.js: the Database handle\<close>

text \<open>
  A Database handle holds its name and its connection. Each method builds the object
  it passes to the connection's \<open>request\<close>; the model returns that object.
  \<open>querystring.stringify\<close> is the platform's and is the parameter \<open>qs\<close>.
\<close>

record database =
  db_name :: string
  db_connection :: options

definition nodecouch_database :: "options \<Rightarrow> string \<Rightarrow> database" where
  "nodecouch_database this name = \<lparr> db_name = name, db_connection = this \<rparr>"

definition Database_name :: "database \<Rightarrow> string" where
  "Database_name this = db_name this"

text \<open>A caller's function passed on as the callback: it is called with both arguments.\<close>

definition passed :: "js \<Rightarrow> continuation" where
  "passed callback error response = call callback [error, response]"

subsection \<open>allDocuments\<close>

text \<open>
  The loop reads \<open>response.rows[i]\<close> until it is falsy and stores
  \<open>rows[i].value.rev\<close> under the name \<open>rows[i].id\<close>. (\<open>response.rows\<close> is read
  once here: nothing assigns to it.)
\<close>

function allDocuments_loop ::
    "nat \<Rightarrow> js \<Rightarrow> (string \<times> js) list \<Rightarrow> js + (string \<times> js) list" where
  "allDocuments_loop i rows documents =
     (case index_read rows i of
        Inl e \<Rightarrow> Inl e
      | Inr row \<Rightarrow>
          if truthy row then
            (case get_prop row ''id'' of
               Inl e \<Rightarrow> Inl e
             | Inr row_id \<Rightarrow>
                 (case andThen (get_prop row ''value'') (\<lambda>v. get_prop v ''rev'') of
                    Inl e \<Rightarrow> Inl e
                  | Inr revision \<Rightarrow>
                      allDocuments_loop (Suc i) rows
                        (put_prop documents (to_string row_id) revision)))
          else Inr documents)"
  by pat_completeness auto
termination allDocuments_loop
proof (relation "measure (\<lambda>(i, rows, documents). extent rows - i)", goal_cases)
  case 1
  show ?case by simp
next
  case (2 i rows documents row row_id revision)
  then have "i < extent rows" by (auto dest: index_read_extent)
  then show ?case by simp
qed

declare allDocuments_loop.simps [simp del]

definition allDocuments_callback :: "js \<Rightarrow> continuation" where
  "allDocuments_callback callback error response =
     andThen
       (if error = Null then
          andThen (get_prop response ''total_rows'') (\<lambda>total_rows.
          andThen (get_prop response ''offset'') (\<lambda>offset.
          andThen (get_prop response ''rows'') (\<lambda>rows.
          andThen (allDocuments_loop 0 rows []) (\<lambda>documents.
            Inr (JObj [(''total'', total_rows), (''offset'', offset)], JObj documents)))))
        else Inr (Undefined, JObj []))
       (\<lambda>(info, documents). call callback [error, info, documents])"

definition Database_allDocuments ::
    "(js \<Rightarrow> string) \<Rightarrow> database \<Rightarrow> js \<Rightarrow> js \<Rightarrow> continuation properties" where
  "Database_allDocuments qs this paramsOrCallback callback =
     (let params = (if typeof_js paramsOrCallback = ''object''
                    then ''?'' @ qs paramsOrCallback else []);
          callback' = js_or callback paramsOrCallback
      in \<lparr> p_method = JStr ''GET'',
           p_path = JStr (Database_name this @ ''/_all_docs'' @ params),
           p_headers = Undefined, p_body = Undefined,
           p_callback = allDocuments_callback callback' \<rparr>)"

subsection \<open>cleanup, compact, create, destroy\<close>

definition cleanup_callback :: "js \<Rightarrow> continuation" where
  "cleanup_callback callback error response =
     call callback [error, if truthy response then JBool True else Null]"

definition Database_cleanup :: "database \<Rightarrow> js \<Rightarrow> continuation properties" where
  "Database_cleanup this callback =
     \<lparr> p_method = JStr ''POST'',
       p_path = JStr (Database_name this @ ''/_view_cleanup''),
       p_headers = Undefined, p_body = Undefined,
       p_callback = cleanup_callback callback \<rparr>"

definition compact_callback :: "js \<Rightarrow> continuation" where
  "compact_callback callback error response =
     call callback [error, if truthy response then JBool True else Null]"

definition Database_compact :: "database \<Rightarrow> js \<Rightarrow> js \<Rightarrow> continuation properties" where
  "Database_compact this designOrCallback callback =
     (let design = (if truthy callback then designOrCallback else Undefined);
          callback' = js_or callback designOrCallback
      in \<lparr> p_method = JStr ''POST'',
           p_path = JStr (Database_name this @ ''/_compact'' @
                      (if truthy design then ''/'' @ to_string design else [])),
           p_headers = Undefined, p_body = Undefined,
           p_callback = compact_callback callback' \<rparr>)"

definition create_callback :: "js \<Rightarrow> continuation" where
  "create_callback callback error response =
     (if error = Null then
        andThen (get_prop response ''ok'') (\<lambda>ok.
          call callback [error, if ok = JBool True then JBool True else response])
      else call callback [error, response])"

definition Database_create :: "database \<Rightarrow> js \<Rightarrow> continuation properties" where
  "Database_create this callback =
     \<lparr> p_method = JStr ''PUT'', p_path = JStr (Database_name this),
       p_headers = Undefined, p_body = Undefined,
       p_callback = create_callback callback \<rparr>"

definition destroy_callback :: "js \<Rightarrow> continuation" where
  "destroy_callback callback error response =
     (if truthy response then
        andThen (get_prop response ''ok'') (\<lambda>ok.
          call callback [error, if ok = JBool True then JBool True else response])
      else call callback [error, response])"

definition Database_destroy :: "database \<Rightarrow> js \<Rightarrow> continuation properties" where
  "Database_destroy this callback =
     \<lparr> p_method = JStr ''DELETE'', p_path = JStr (Database_name this),
       p_headers = Undefined, p_body = Undefined,
       p_callback = destroy_callback callback \<rparr>"

subsection \<open>document\<close>

text \<open>
  \<open>document\<close> picks the constructor and calls it with the id, the revision, the
  connection and the database; \<open>document.js\<close>, which defines what the constructor
  stores, is not part of the sources, so the handle is the constructor chosen and its
  four arguments. \<open>match\<close> is a method of strings: on another truthy id the call
  throws a \<open>TypeError\<close>.
\<close>

datatype doc_class = Document | Design

record document_handle =
  h_class :: doc_class
  h_id :: js
  h_revision :: js
  h_connection :: options
  h_database :: database

fun match_design :: "js \<Rightarrow> js + bool" where
  \<comment> \<open>\<open>docId.match(/^_design\//)\<close> is not \<open>null\<close>\<close>
  "match_design (JStr s) = Inr (prefix ''_design/'' s)"
| "match_design v = Inl (type_error ''undefined is not a function'')"

definition Database_document :: "database \<Rightarrow> js \<Rightarrow> js \<Rightarrow> js + document_handle" where
  "Database_document this docId revision =
     andThen (if truthy docId then match_design docId else Inr False) (\<lambda>is_design.
       Inr \<lparr> h_class = (if is_design then Design else Document),
             h_id = js_or docId Null,
             h_revision = js_or revision Null,
             h_connection = db_connection this,
             h_database = this \<rparr>)"

subsection \<open>ensureFullCommit, exists, info\<close>

definition ensureFullCommit_callback :: "js \<Rightarrow> continuation" where
  "ensureFullCommit_callback callback error response =
     andThen
       (if error = Null
        then andThen (get_prop response ''ok'') (\<lambda>ok. Inr (ok = JBool True))
        else Inr False)
       (\<lambda>success. call callback [error, JBool success])"

definition Database_ensureFullCommit :: "database \<Rightarrow> js \<Rightarrow> continuation properties" where
  "Database_ensureFullCommit this callback =
     \<lparr> p_method = JStr ''POST'',
       p_path = JStr (db_name this @ ''/_ensure_full_commit''),
       p_headers = Undefined, p_body = Undefined,
       p_callback = ensureFullCommit_callback callback \<rparr>"

text \<open>
  The closure of \<open>exists\<close> declares the parameter \<open>error\<close> only; the response it is
  called with is not read.
\<close>

definition exists_callback :: "js \<Rightarrow> continuation" where
  "exists_callback callback error response =
     (let not_found = (truthy error \<and> get_prop error ''error'' = Inr (JStr ''not_found''));
          error' = (if not_found then Null else error);
          exists = (if not_found then False else True)
      in call callback [error', if error' = Null then JBool exists else Null])"

definition Database_exists :: "database \<Rightarrow> js \<Rightarrow> continuation properties" where
  "Database_exists this callback =
     \<lparr> p_method = JStr ''GET'', p_path = JStr (db_name this),
       p_headers = Undefined, p_body = Undefined,
       p_callback = exists_callback callback \<rparr>"

definition Database_info :: "database \<Rightarrow> js \<Rightarrow> continuation properties" where
  "Database_info this callback =
     \<lparr> p_method = JStr ''GET'', p_path = JStr (db_name this),
       p_headers = Undefined, p_body = Undefined,
       p_callback = passed callback \<rparr>"

subsection \<open>list\<close>

record list_slots =
  list_params :: string
  list_view :: js
  list_otherDesign :: string
  list_callback :: js

definition list_resolve :: "(js \<Rightarrow> string) \<Rightarrow> js \<Rightarrow> js \<Rightarrow> js \<Rightarrow> js \<Rightarrow> list_slots" where
  "list_resolve qs viewOrOtherDesign viewOrParamsOrCallback paramsOrCallback callback =
     \<lparr> list_params =
         (if typeof_js viewOrParamsOrCallback = ''object''
          then ''?'' @ qs viewOrParamsOrCallback
          else if typeof_js paramsOrCallback = ''object''
          then ''?'' @ qs paramsOrCallback
          else []),
       list_view =
         (if typeof_js viewOrParamsOrCallback = ''string''
          then viewOrParamsOrCallback else viewOrOtherDesign),
       list_otherDesign =
         (if typeof_js viewOrParamsOrCallback = ''string''
          then ''/'' @ to_string viewOrOtherDesign else []),
       list_callback = js_or (js_or callback paramsOrCallback) viewOrParamsOrCallback \<rparr>"

definition Database_list ::
    "(js \<Rightarrow> string) \<Rightarrow> database \<Rightarrow> js \<Rightarrow> js \<Rightarrow> js \<Rightarrow> js \<Rightarrow> js \<Rightarrow> js
       \<Rightarrow> continuation properties" where
  "Database_list qs this design list viewOrOtherDesign viewOrParamsOrCallback
       paramsOrCallback callback =
     (let slots = list_resolve qs viewOrOtherDesign viewOrParamsOrCallback
                    paramsOrCallback callback;
          path = Database_name this @ ''/_design/'' @ to_string design @ ''/_list/'' @
                 to_string list @ list_otherDesign slots @ ''/'' @
                 to_string (list_view slots) @ list_params slots
      in \<lparr> p_method = JStr ''GET'', p_path = JStr path,
           p_headers = Undefined, p_body = Undefined,
           p_callback = passed (list_callback slots) \<rparr>)"

subsection \<open>purge, revisionLimit\<close>

definition purge_callback :: "js \<Rightarrow> continuation" where
  "purge_callback callback error response =
     (if truthy error then call callback [error, Null]
      else andThen (get_prop response ''purged'') (\<lambda>purged. call callback [error, purged]))"

definition Database_purge :: "database \<Rightarrow> js \<Rightarrow> js \<Rightarrow> continuation properties" where
  "Database_purge this documents callback =
     \<lparr> p_method = JStr ''POST'', p_path = JStr (db_name this @ ''/_purge''),
       p_headers = Undefined, p_body = documents,
       p_callback = purge_callback callback \<rparr>"

definition revisionLimit_callback :: "js \<Rightarrow> js \<Rightarrow> continuation" where
  "revisionLimit_callback callback limit error response =
     (if truthy error then call callback [error, Null]
      else if limit = Null then call callback [Null, response]
      else call callback [Null, JBool True])"

definition Database_revisionLimit :: "database \<Rightarrow> js \<Rightarrow> js \<Rightarrow> continuation properties" where
  "Database_revisionLimit this limitOrCallback callback =
     (let limit = (if truthy callback then limitOrCallback else Null);
          callback' = js_or callback limitOrCallback
      in \<lparr> p_method = JStr (if limit \<noteq> Null then ''PUT'' else ''GET''),
           p_path = JStr (db_name this @ ''/_revs_limit''),
           p_headers = Undefined,
           p_body = (if limit \<noteq> Null then JStr (to_string limit) else Undefined),
           p_callback = revisionLimit_callback callback' limit \<rparr>)"

subsection \<open>show\<close>

record show_slots =
  show_docId :: string
  show_query :: string
  show_callback :: js

definition show_resolve :: "(js \<Rightarrow> string) \<Rightarrow> js \<Rightarrow> js \<Rightarrow> js \<Rightarrow> show_slots" where
  "show_resolve qs docIdOrQueryOrCallback queryOrCallback callback =
     \<lparr> show_docId =
         (if typeof_js docIdOrQueryOrCallback = ''string''
          then ''/'' @ to_string docIdOrQueryOrCallback else []),
       show_query =
         (if typeof_js docIdOrQueryOrCallback = ''object''
          then ''?'' @ qs docIdOrQueryOrCallback
          else if typeof_js queryOrCallback = ''object''
          then ''?'' @ qs queryOrCallback
          else []),
       show_callback = js_or (js_or callback queryOrCallback) docIdOrQueryOrCallback \<rparr>"

definition Database_show ::
    "(js \<Rightarrow> string) \<Rightarrow> database \<Rightarrow> js \<Rightarrow> js \<Rightarrow> js \<Rightarrow> js \<Rightarrow> js
       \<Rightarrow> continuation properties" where
  "Database_show qs this design show docIdOrQueryOrCallback queryOrCallback callback =
     (let slots = show_resolve qs docIdOrQueryOrCallback queryOrCallback callback
      in \<lparr> p_method = JStr ''GET'',
           p_path = JStr (db_name this @ ''/_design/'' @ to_string design @ ''/_show/'' @
                      to_string show @ show_docId slots @ show_query slots),
           p_headers = Undefined, p_body = Undefined,
           p_callback = passed (show_callback slots) \<rparr>)"

subsection \<open>temporaryView\<close>

record temporaryView_slots =
  tv_reduce :: js
  tv_params :: js
  tv_callback :: js

definition temporaryView_resolve :: "js \<Rightarrow> js \<Rightarrow> js \<Rightarrow> temporaryView_slots" where
  "temporaryView_resolve reduceOrParamsOrCallback paramsOrCallback callback =
     \<lparr> tv_reduce =
         (if typeof_js reduceOrParamsOrCallback = ''string''
          then reduceOrParamsOrCallback else Null),
       tv_params =
         (if typeof_js reduceOrParamsOrCallback = ''object''
          then reduceOrParamsOrCallback else paramsOrCallback),
       tv_callback = js_or (js_or callback paramsOrCallback) reduceOrParamsOrCallback \<rparr>"

definition temporaryView_callback :: "js \<Rightarrow> continuation" where
  "temporaryView_callback callback error response =
     andThen
       (if error = Null then
          andThen (get_prop response ''total_rows'') (\<lambda>total_rows.
          andThen (get_prop response ''offset'') (\<lambda>offset.
          andThen (get_prop response ''rows'') (\<lambda>rows.
            Inr (JObj [(''total'', total_rows), (''offset'', offset)], rows))))
        else Inr (Null, Null))
       (\<lambda>(info, rows). call callback [error, info, rows])"

definition Database_temporaryView ::
    "(js \<Rightarrow> string) \<Rightarrow> database \<Rightarrow> js \<Rightarrow> js \<Rightarrow> js \<Rightarrow> js \<Rightarrow> continuation properties" where
  "Database_temporaryView qs this map_source reduceOrParamsOrCallback paramsOrCallback callback =
     (let slots = temporaryView_resolve reduceOrParamsOrCallback paramsOrCallback callback;
          params = qs (tv_params slots);
          body = JObj ([(''map'', map_source)] @
                   (if tv_reduce slots \<noteq> Null then [(''reduce'', tv_reduce slots)] else []))
      in \<lparr> p_method = JStr ''POST'',
           p_path = JStr (Database_name this @ ''/_temp_view'' @
                      (if params \<noteq> [] then ''?'' @ params else [])),
           p_headers = Undefined, p_body = body,
           p_callback = temporaryView_callback (tv_callback slots) \<rparr>)"

subsection \<open>view\<close>

text \<open>
  The file is strict-mode code, so an assignment to a name that no declaration binds
  throws a \<open>ReferenceError\<close>. The names that resolve inside \<open>view\<close> are its
  parameters and its \<open>var\<close>s, the \<open>var\<close>s of the module and the parameters of the
  module wrapper; Node's global object has no property named \<open>path\<close> either.

  Line 448 of \<open>database.js\<close> reads
  \<open>var paramsOrCallback[key] = JSON.stringify(paramsOrCallback[key]);\<close>, which is
  not a declaration the grammar admits: the file is rejected when it is loaded. The
  model reads the line as the assignment without the \<open>var\<close>, and the body of
  \<open>view\<close> as it then runs. \<open>JSON.stringify\<close> and \<open>JSON.parse\<close> are the platform's
  and are parameters.
\<close>

definition view_scope :: "string list" where
  "view_scope =
     [''design'', ''view'', ''paramsOrCallback'', ''callback'', ''params'', ''key'',
      ''arguments'', ''querystring'', ''Document'', ''Design'', ''Database'',
      ''exports'', ''require'', ''module'', ''__filename'', ''__dirname'']"

definition strict_assign :: "string list \<Rightarrow> string \<Rightarrow> js + unit" where
  "strict_assign scope name =
     (if name \<in> set scope then Inr () else Inl (reference_error (name @ '' is not defined'')))"

fun stringify_values :: "(js \<Rightarrow> string) \<Rightarrow> js \<Rightarrow> js" where
  "stringify_values JSON_stringify (JObj kvs) =
     JObj (map (\<lambda>(k, v). (k, JStr (JSON_stringify v))) kvs)"
| "stringify_values JSON_stringify (JArr xs) =
     JArr (map (\<lambda>v. JStr (JSON_stringify v)) xs)"
| "stringify_values JSON_stringify v = v"

definition view_callback :: "js \<Rightarrow> continuation" where
  "view_callback callback error response =
     andThen
       (if error = Null then
          andThen (get_prop response ''total_rows'') (\<lambda>total_rows.
          andThen (get_prop response ''offset'') (\<lambda>offset.
          andThen (get_prop response ''rows'') (\<lambda>rows.
            Inr (JObj [(''total'', total_rows), (''offset'', offset)], rows))))
        else Inr (Null, Null))
       (\<lambda>(info, rows). call callback [error, info, rows])"

definition Database_view ::
    "(js \<Rightarrow> string) \<Rightarrow> (js \<Rightarrow> string) \<Rightarrow> (string \<Rightarrow> js + js) \<Rightarrow> database
       \<Rightarrow> js \<Rightarrow> js \<Rightarrow> js \<Rightarrow> js \<Rightarrow> js + continuation properties" where
  "Database_view qs JSON_stringify JSON_parse this design view paramsOrCallback callback =
     andThen
       (if typeof_js paramsOrCallback = ''object'' then
          andThen (JSON_parse (JSON_stringify paramsOrCallback)) (\<lambda>copy.
            Inr (stringify_values JSON_stringify copy,
                 ''?'' @ qs (stringify_values JSON_stringify copy)))
        else Inr (paramsOrCallback, []))
       (\<lambda>(paramsOrCallback', params).
          andThen (strict_assign view_scope ''path'') (\<lambda>_.
            Inr \<lparr> p_method = JStr ''GET'',
                  p_path = JStr (Database_name this @ ''/_design/'' @ to_string design @
                             ''/_view/'' @ to_string view @ params),
                  p_headers = Undefined, p_body = Undefined,
                  p_callback = view_callback (js_or callback paramsOrCallback') \<rparr>))"

section \<open>design.js: the Design-Document handle\<close>

text \<open>
  A design document keeps its show functions in \<open>this._body.shows\<close>, which is absent
  until \<open>show\<close> creates it as an object (\<open>create shows object?\<close>, in the source's
  words). \<open>show\<close> returns either the handle itself or the value stored under the
  name; the model returns that and the handle as the call leaves it.
\<close>

record design =
  design_id :: js
  design_revision :: js
  body_shows :: "(string \<times> js) list option"

datatype show_result = This | Value js

definition Design_show :: "design \<Rightarrow> string \<Rightarrow> js \<Rightarrow> show_result \<times> design" where
  "Design_show this name content =
     (let this' =
            (if truthy content
             then this\<lparr> body_shows :=
                    Some (put_prop (case body_shows this of Some shows \<Rightarrow> shows | None \<Rightarrow> [])
                            name content) \<rparr>
             else this)
      in (if truthy content then This
          else (case body_shows this' of
                  Some shows \<Rightarrow> Value (own_or_inherited shows name)
                | None \<Rightarrow> Value Undefined),
          this'))"

section \<open>Vocabulary of the statements and sample values\<close>

text \<open>The first argument of the call a closure made, if it made one.\<close>

definition first_argument :: "js + event \<Rightarrow> js option" where
  "first_argument r = (case r of Inr (Invoked f (a # args)) \<Rightarrow> Some a | _ \<Rightarrow> None)"

text \<open>A database name that does not begin with an underscore.\<close>

definition userDatabase :: "string \<Rightarrow> bool" where
  "userDatabase name = (take 1 name \<noteq> ''_'')"

text \<open>
  The names a design document's \<open>shows\<close> object holds as own properties, and the
  names every plain object inherits.
\<close>

definition shows_names :: "design \<Rightarrow> string set" where
  "shows_names d = (case body_shows d of Some shows \<Rightarrow> fst ` set shows | None \<Rightarrow> {})"

definition inherited_names :: "string set" where
  "inherited_names = insert ''__proto__'' (fst ` set object_prototype)"

text \<open>
  Concrete values the statements are run at: a connection, a database named \<open>db\<close>,
  a transport error, a \<open>not_found\<close> domain error, a design document without show
  functions, a query-string encoder for values that need no escaping, and a parser
  that knows four texts (one that does not parse, \<open>null\<close>, an error object and a
  success object).
\<close>

definition sample_connection :: options where
  "sample_connection =
     \<lparr> opt_host = JStr ''localhost'', opt_port = JNum 5984,
       opt_username = JStr ''foo'', opt_password = JStr ''bar'' \<rparr>"

definition sample_database :: database where
  "sample_database = nodecouch_database sample_connection ''db''"

definition sample_error :: js where
  "sample_error = JObj [(''code'', JStr ''ECONNREFUSED'')]"

definition not_found :: js where
  "not_found = JObj [(''error'', JStr ''not_found''), (''reason'', JStr ''no_db_file'')]"

definition sample_design :: design where
  "sample_design =
     \<lparr> design_id = JStr ''_design/app'', design_revision = Null, body_shows = None \<rparr>"

definition sample_qs :: "js \<Rightarrow> string" where
  "sample_qs v =
     (case v of
        JObj kvs \<Rightarrow> join ''&'' (map (\<lambda>(k, w). k @ ''='' @ to_string w) kvs)
      | _ \<Rightarrow> [])"

definition sample_parse :: "string \<Rightarrow> js + js" where
  "sample_parse s =
     (if s = ''null'' then Inr Null
      else if s = ''{\"error\":\"not_found\"}'' then Inr (JObj [(''error'', JStr ''not_found'')])
      else if s = ''{\"ok\":true}'' then Inr (JObj [(''ok'', JBool True)])
      else Inl (JObj [(''name'', JStr ''SyntaxError'')]))"

section \<open>Properties of the dispatcher\<close>

lemma call_function [simp]: "call (JFun f) args = Inr (Invoked (JFun f) args)"
  by (simp add: call_def)

lemma andThen_Inl [simp]: "andThen (Inl e) f = Inl e"
  by (simp add: andThen_def)

lemma andThen_Inr [simp]: "andThen (Inr v) f = f v"
  by (simp add: andThen_def)

lemma truthy_not_Null: "truthy e \<Longrightarrow> e \<noteq> Null"
  by auto

text \<open>
  The six verbs, in any letter case, match \<open>_methodMatch\<close> and are sent as given:
  that half of C1 holds.
\<close>

lemma request_keeps_recognised_method:
  assumes "map to_upper s \<in> set [''GET'', ''PUT'', ''POST'', ''DELETE'', ''HEAD'', ''COPY'']"
  shows "http_method (request_options this (properties\<lparr> p_method := JStr s \<rparr>)) = JStr s"
proof -
  have "sublist ''COP'' ''COPY''" by code_simp
  with assms have "methodMatch s"
    by (auto simp: methodMatch_def)
  then show ?thesis by (simp add: request_options_def)
qed

text \<open>
  C1. The claim: a method that is one of GET, PUT, POST, DELETE, HEAD, COPY (in any
  letter case) is sent as given, and every other method value is replaced by GET.
  The code does not do the second: \<open>_methodMatch\<close> is not anchored, so the method
  \<open>OUTPUT\<close>, which contains \<open>PUT\<close>, is sent as it is.
\<close>

theorem request_sends_unrecognised_method:
  "http_method (request_options this (properties\<lparr> p_method := JStr ''OUTPUT'' \<rparr>))
     = JStr ''OUTPUT''"
proof -
  have "methodMatch ''OUTPUT''" by code_simp
  then show ?thesis by (simp add: request_options_def)
qed

lemma responseHandler_undefined:
  "get_prop (this_object this) ''_responseHandler'' = Inr Undefined"
  by (simp add: this_object_def nodecouch_prototype_def own_or_inherited_def inherited_def
      object_prototype_def)

text \<open>
  C2. The claim: on a transport error the callback of the request is called once with
  the error and \<open>null\<close>. The code does not call it: the listener calls
  \<open>this._responseHandler\<close>, a method the connection does not have, so for every
  connection, request and error the listener throws a \<open>TypeError\<close> and no call of
  the callback is made.
\<close>

theorem request_on_error_throws:
  "request_on_error this properties error = Inl (type_error ''undefined is not a function'')"
  by (simp add: request_on_error_def responseHandler_undefined call_def)

text \<open>
  C3, as amended. When the response has ended, the callback (a function \<open>f\<close>) is
  called with
  \<^item> the value \<open>JSON.parse\<close> threw and \<open>null\<close>, when the body does not parse;
  \<^item> a \<open>TypeError\<close> and \<open>null\<close>, when the body parses to \<open>null\<close>: reading
    \<open>content.error\<close> throws inside the \<open>try\<close> block;
  \<^item> the parsed value and \<open>null\<close>, when its \<open>error\<close> property is truthy;
  \<^item> \<open>null\<close> and the parsed value, when its \<open>error\<close> property is falsy;
  and in the last two cases the parsed value is not \<open>null\<close>. What \<open>JSON.parse\<close>
  throws is an \<open>Error\<close> object, so in each case exactly one of the two arguments is
  \<open>null\<close>.
\<close>

theorem request_on_end_delivers:
  "(\<forall>e. JSON_parse (concat chunks) = Inl e \<longrightarrow>
      request_on_end JSON_parse (JFun f) chunks = Inr (Invoked (JFun f) [e, Null])) \<and>
   (JSON_parse (concat chunks) = Inr Null \<longrightarrow>
      request_on_end JSON_parse (JFun f) chunks =
        Inr (Invoked (JFun f) [type_error ''Cannot read property error of null'', Null])) \<and>
   (\<forall>content v. JSON_parse (concat chunks) = Inr content \<and>
        get_prop content ''error'' = Inr v \<and> truthy v \<longrightarrow>
      request_on_end JSON_parse (JFun f) chunks = Inr (Invoked (JFun f) [content, Null]) \<and>
      content \<noteq> Null) \<and>
   (\<forall>content v. JSON_parse (concat chunks) = Inr content \<and>
        get_prop content ''error'' = Inr v \<and> \<not> truthy v \<longrightarrow>
      request_on_end JSON_parse (JFun f) chunks = Inr (Invoked (JFun f) [Null, content]) \<and>
      content \<noteq> Null)"
  by (auto simp: request_on_end_def)

text \<open>The four cases, at bodies that arrive in one or two chunks.\<close>

theorem request_on_end_delivers_witness:
  "request_on_end sample_parse (JFun ''cb'') [''<html>'']
     = Inr (Invoked (JFun ''cb'') [JObj [(''name'', JStr ''SyntaxError'')], Null]) \<and>
   request_on_end sample_parse (JFun ''cb'') [''nu'', ''ll'']
     = Inr (Invoked (JFun ''cb'') [type_error ''Cannot read property error of null'', Null]) \<and>
   request_on_end sample_parse (JFun ''cb'') [''{\"error\":'', ''\"not_found\"}'']
     = Inr (Invoked (JFun ''cb'') [JObj [(''error'', JStr ''not_found'')], Null]) \<and>
   request_on_end sample_parse (JFun ''cb'') [''{\"ok\":true}'']
     = Inr (Invoked (JFun ''cb'') [Null, JObj [(''ok'', JBool True)]])"
  using request_on_end_delivers [of sample_parse "[''<html>'']" "''cb''"]
        request_on_end_delivers [of sample_parse "[''nu'', ''ll'']" "''cb''"]
        request_on_end_delivers [of sample_parse "[''{\"error\":'', ''\"not_found\"}'']" "''cb''"]
        request_on_end_delivers [of sample_parse "[''{\"ok\":true}'']" "''cb''"]
  by (simp add: sample_parse_def own_or_inherited_def inherited_def object_prototype_def)

text \<open>
  The claim as stated fails at the body \<open>null\<close>: it parses, its value has no truthy
  \<open>error\<close> property, and the callback is not called with \<open>null\<close> and the parsed
  value but with a \<open>TypeError\<close> and \<open>null\<close>.
\<close>

theorem request_on_end_null_counterexample:
  "request_on_end sample_parse (JFun ''cb'') [''null'']
     = Inr (Invoked (JFun ''cb'') [type_error ''Cannot read property error of null'', Null]) \<and>
   request_on_end sample_parse (JFun ''cb'') [''null'']
     \<noteq> Inr (Invoked (JFun ''cb'') [Null, Null])"
  by (simp add: request_on_end_def sample_parse_def type_error_def)

section \<open>Properties of the handles\<close>

text \<open>
  C4. The claim: \<open>view("d", "v", {key: "x"}, cb)\<close> on the database \<open>db\<close> issues a
  GET request for \<open>db/_design/d/_view/v?key=%22x%22\<close> and hands the rows of the
  response to \<open>cb\<close>. The code issues no request: read without the misplaced
  \<open>var\<close>, the body of \<open>view\<close> assigns to the undeclared name \<open>path\<close> before
  it calls \<open>request\<close>, which strict-mode code answers with a \<open>ReferenceError\<close>,
  for every argument list and so for the one of the claim.
\<close>

theorem view_issues_no_request:
  "(\<exists>e. Database_view qs JSON_stringify JSON_parse this design view paramsOrCallback callback
          = Inl e) \<and>
   Database_view qs JSON_stringify (\<lambda>s. Inr (JObj [(''key'', JStr ''x'')])) sample_database
       (JStr ''d'') (JStr ''v'') (JObj [(''key'', JStr ''x'')]) (JFun ''cb'')
     = Inl (reference_error ''path is not defined'')"
proof -
  have "strict_assign view_scope ''path'' = Inl (reference_error ''path is not defined'')"
    by (simp add: strict_assign_def view_scope_def)
  then show ?thesis
    by (auto simp: Database_view_def andThen_def split: sum.splits)
qed

subsection \<open>What each closure does with an error\<close>

lemma getVersion_error:
  "p_callback (nodecouch_getVersion (JFun c)) e Null = Inr (Invoked (JFun c) [e, Null])"
  by (simp add: nodecouch_getVersion_def getVersion_callback_def)

lemma listDatabases_error:
  "e \<noteq> Null \<Longrightarrow>
   p_callback (nodecouch_listDatabases (JFun c) n) e Null = Inr (Invoked (JFun c) [e, Null])"
  by (simp add: nodecouch_listDatabases_def listDatabases_callback_def)

lemma allDocuments_error:
  "e \<noteq> Null \<Longrightarrow>
   p_callback (Database_allDocuments qs db p (JFun c)) e Null
     = Inr (Invoked (JFun c) [e, Undefined, JObj []])"
  by (simp add: Database_allDocuments_def allDocuments_callback_def js_or_def)

lemma cleanup_error:
  "p_callback (Database_cleanup db (JFun c)) e Null = Inr (Invoked (JFun c) [e, Null])"
  by (simp add: Database_cleanup_def cleanup_callback_def)

lemma compact_error:
  "p_callback (Database_compact db d (JFun c)) e Null = Inr (Invoked (JFun c) [e, Null])"
  by (simp add: Database_compact_def compact_callback_def js_or_def)

lemma create_error:
  "e \<noteq> Null \<Longrightarrow>
   p_callback (Database_create db (JFun c)) e Null = Inr (Invoked (JFun c) [e, Null])"
  by (simp add: Database_create_def create_callback_def)

lemma destroy_error:
  "p_callback (Database_destroy db (JFun c)) e Null = Inr (Invoked (JFun c) [e, Null])"
  by (simp add: Database_destroy_def destroy_callback_def)

lemma ensureFullCommit_error:
  "e \<noteq> Null \<Longrightarrow>
   p_callback (Database_ensureFullCommit db (JFun c)) e Null
     = Inr (Invoked (JFun c) [e, JBool False])"
  by (simp add: Database_ensureFullCommit_def ensureFullCommit_callback_def)

lemma exists_error:
  "e \<noteq> Null \<Longrightarrow> get_prop e ''error'' \<noteq> Inr (JStr ''not_found'') \<Longrightarrow>
   p_callback (Database_exists db (JFun c)) e Null = Inr (Invoked (JFun c) [e, Null])"
  by (simp add: Database_exists_def exists_callback_def)

lemma info_error:
  "p_callback (Database_info db (JFun c)) e Null = Inr (Invoked (JFun c) [e, Null])"
  by (simp add: Database_info_def passed_def)

lemma list_error:
  "p_callback (Database_list qs db d l v1 v2 p (JFun c)) e Null
     = Inr (Invoked (JFun c) [e, Null])"
  by (simp add: Database_list_def list_resolve_def passed_def js_or_def)

lemma purge_error:
  "truthy e \<Longrightarrow>
   p_callback (Database_purge db docs (JFun c)) e Null = Inr (Invoked (JFun c) [e, Null])"
  by (simp add: Database_purge_def purge_callback_def)

lemma revisionLimit_error:
  "truthy e \<Longrightarrow>
   p_callback (Database_revisionLimit db l (JFun c)) e Null
     = Inr (Invoked (JFun c) [e, Null])"
  by (simp add: Database_revisionLimit_def revisionLimit_callback_def js_or_def)

lemma show_error:
  "p_callback (Database_show qs db d s a b (JFun c)) e Null
     = Inr (Invoked (JFun c) [e, Null])"
  by (simp add: Database_show_def show_resolve_def passed_def js_or_def)

lemma temporaryView_error:
  "e \<noteq> Null \<Longrightarrow>
   p_callback (Database_temporaryView qs db m r p (JFun c)) e Null
     = Inr (Invoked (JFun c) [e, Null, Null])"
  by (simp add: Database_temporaryView_def temporaryView_resolve_def
      temporaryView_callback_def js_or_def Let_def)

text \<open>
  What the dispatcher delivers as a domain error is truthy: a value whose \<open>error\<close>
  property is truthy is an object. So are the \<open>Error\<close> objects of the transport
  and of a failed parse.
\<close>

lemma domain_error_truthy:
  "get_prop content ''error'' = Inr v \<Longrightarrow> truthy v \<Longrightarrow> truthy content"
  by (cases content) (auto simp: inherited_def object_prototype_def)

lemma type_error_truthy: "truthy (type_error message)"
  by (simp add: type_error_def)

text \<open>
  C5, as amended. Let the dispatcher deliver a truthy error \<open>e\<close> and \<open>null\<close> to the
  closure of a method whose caller passed the function \<open>c\<close> in the method's last
  parameter. Then \<open>c\<close> is called with \<open>e\<close> itself as first argument by every
  method of the connection and of the database that issues a request, \<open>exists\<close>
  doing so when the \<open>error\<close> property of \<open>e\<close> is not \<open>not_found\<close>. The second
  argument is \<open>null\<close>, except that \<open>ensureFullCommit\<close> passes \<open>false\<close>;
  \<open>temporaryView\<close> passes \<open>null\<close> as third argument too. Of \<open>allDocuments\<close> only
  the first argument is stated.
\<close>

theorem handles_forward_error:
  assumes "truthy e"
  shows
   "p_callback (nodecouch_getVersion (JFun c)) e Null = Inr (Invoked (JFun c) [e, Null]) \<and>
    p_callback (nodecouch_listDatabases (JFun c) noCouchRelated) e Null
      = Inr (Invoked (JFun c) [e, Null]) \<and>
    (\<exists>rest. p_callback (Database_allDocuments qs db params (JFun c)) e Null
      = Inr (Invoked (JFun c) (e # rest))) \<and>
    p_callback (Database_cleanup db (JFun c)) e Null = Inr (Invoked (JFun c) [e, Null]) \<and>
    p_callback (Database_compact db design (JFun c)) e Null = Inr (Invoked (JFun c) [e, Null]) \<and>
    p_callback (Database_create db (JFun c)) e Null = Inr (Invoked (JFun c) [e, Null]) \<and>
    p_callback (Database_destroy db (JFun c)) e Null = Inr (Invoked (JFun c) [e, Null]) \<and>
    p_callback (Database_ensureFullCommit db (JFun c)) e Null
      = Inr (Invoked (JFun c) [e, JBool False]) \<and>
    (get_prop e ''error'' \<noteq> Inr (JStr ''not_found'') \<longrightarrow>
       p_callback (Database_exists db (JFun c)) e Null = Inr (Invoked (JFun c) [e, Null])) \<and>
    p_callback (Database_info db (JFun c)) e Null = Inr (Invoked (JFun c) [e, Null]) \<and>
    p_callback (Database_list qs db design l v1 v2 params (JFun c)) e Null
      = Inr (Invoked (JFun c) [e, Null]) \<and>
    p_callback (Database_purge db documents (JFun c)) e Null
      = Inr (Invoked (JFun c) [e, Null]) \<and>
    p_callback (Database_revisionLimit db limit (JFun c)) e Null
      = Inr (Invoked (JFun c) [e, Null]) \<and>
    p_callback (Database_show qs db design s a b (JFun c)) e Null
      = Inr (Invoked (JFun c) [e, Null]) \<and>
    p_callback (Database_temporaryView qs db m r params (JFun c)) e Null
      = Inr (Invoked (JFun c) [e, Null, Null])"
proof -
  from assms have n: "e \<noteq> Null" by (rule truthy_not_Null)
  show ?thesis
    using assms n
    by (simp add: getVersion_error listDatabases_error allDocuments_error cleanup_error
        compact_error create_error destroy_error ensureFullCommit_error exists_error
        info_error list_error purge_error revisionLimit_error show_error temporaryView_error)
qed

theorem handles_forward_error_witness:
  "truthy sample_error \<and>
   p_callback (Database_cleanup sample_database (JFun ''cb'')) sample_error Null
     = Inr (Invoked (JFun ''cb'') [sample_error, Null]) \<and>
   p_callback (Database_ensureFullCommit sample_database (JFun ''cb'')) sample_error Null
     = Inr (Invoked (JFun ''cb'') [sample_error, JBool False]) \<and>
   get_prop sample_error ''error'' \<noteq> Inr (JStr ''not_found'') \<and>
   p_callback (Database_exists sample_database (JFun ''cb'')) sample_error Null
     = Inr (Invoked (JFun ''cb'') [sample_error, Null]) \<and>
   p_callback (Database_purge sample_database (JObj []) (JFun ''cb'')) sample_error Null
     = Inr (Invoked (JFun ''cb'') [sample_error, Null])"
proof -
  have t: "truthy sample_error" by (simp add: sample_error_def)
  have g: "get_prop sample_error ''error'' \<noteq> Inr (JStr ''not_found'')"
    by (simp add: sample_error_def own_or_inherited_def inherited_def object_prototype_def)
  from handles_forward_error
    [OF t, of "''cb''" Undefined sample_qs sample_database Undefined Undefined
       Undefined Undefined Undefined "JObj []"] g t
  show ?thesis by simp
qed

text \<open>
  The claim as stated fails at \<open>ensureFullCommit\<close>, which passes \<open>false\<close> and not
  \<open>null\<close> beside the error, and at \<open>exists\<close>, which does not pass a \<open>not_found\<close>
  error through.
\<close>

theorem handles_forward_error_counterexample:
  "p_callback (Database_ensureFullCommit sample_database (JFun ''cb'')) sample_error Null
     = Inr (Invoked (JFun ''cb'') [sample_error, JBool False]) \<and>
   p_callback (Database_ensureFullCommit sample_database (JFun ''cb'')) sample_error Null
     \<noteq> Inr (Invoked (JFun ''cb'') [sample_error, Null]) \<and>
   p_callback (Database_exists sample_database (JFun ''cb'')) not_found Null
     = Inr (Invoked (JFun ''cb'') [Null, JBool False]) \<and>
   p_callback (Database_exists sample_database (JFun ''cb'')) not_found Null
     \<noteq> Inr (Invoked (JFun ''cb'') [not_found, Null])"
  by (simp add: Database_ensureFullCommit_def ensureFullCommit_callback_def
      Database_exists_def exists_callback_def sample_error_def not_found_def
      own_or_inherited_def)

text \<open>
  C6. \<open>exists\<close> calls the caller's function with \<open>null\<close> and \<open>false\<close> when the
  dispatcher delivers an error object whose \<open>error\<close> property is \<open>not_found\<close>, and
  with \<open>null\<close> and \<open>true\<close> when it delivers no error, whatever the response. No
  other method of the connection or the database that issues a request turns an
  error into a success: each calls the caller's function with the error it was given
  as first argument.
\<close>

theorem exists_reclassifies_not_found:
  "(map_of kvs ''error'' = Some (JStr ''not_found'') \<longrightarrow>
      p_callback (Database_exists db (JFun c)) (JObj kvs) Null
        = Inr (Invoked (JFun c) [Null, JBool False])) \<and>
   p_callback (Database_exists db (JFun c)) Null response
     = Inr (Invoked (JFun c) [Null, JBool True]) \<and>
   (truthy e \<longrightarrow>
      first_argument (p_callback (nodecouch_getVersion (JFun c)) e Null) = Some e \<and>
      first_argument (p_callback (nodecouch_listDatabases (JFun c) noCouchRelated) e Null)
        = Some e \<and>
      first_argument (p_callback (Database_allDocuments qs db params (JFun c)) e Null)
        = Some e \<and>
      first_argument (p_callback (Database_cleanup db (JFun c)) e Null) = Some e \<and>
      first_argument (p_callback (Database_compact db design (JFun c)) e Null) = Some e \<and>
      first_argument (p_callback (Database_create db (JFun c)) e Null) = Some e \<and>
      first_argument (p_callback (Database_destroy db (JFun c)) e Null) = Some e \<and>
      first_argument (p_callback (Database_ensureFullCommit db (JFun c)) e Null) = Some e \<and>
      first_argument (p_callback (Database_info db (JFun c)) e Null) = Some e \<and>
      first_argument (p_callback (Database_list qs db design l v1 v2 params (JFun c)) e Null)
        = Some e \<and>
      first_argument (p_callback (Database_purge db documents (JFun c)) e Null) = Some e \<and>
      first_argument (p_callback (Database_revisionLimit db limit (JFun c)) e Null)
        = Some e \<and>
      first_argument (p_callback (Database_show qs db design s a b (JFun c)) e Null)
        = Some e \<and>
      first_argument (p_callback (Database_temporaryView qs db m r params (JFun c)) e Null)
        = Some e)"
proof -
  have a: "map_of kvs ''error'' = Some (JStr ''not_found'') \<longrightarrow>
      p_callback (Database_exists db (JFun c)) (JObj kvs) Null
        = Inr (Invoked (JFun c) [Null, JBool False])"
    by (simp add: Database_exists_def exists_callback_def own_or_inherited_def)
  have b: "p_callback (Database_exists db (JFun c)) Null response
     = Inr (Invoked (JFun c) [Null, JBool True])"
    by (simp add: Database_exists_def exists_callback_def)
  show ?thesis
    using a b
    by (auto dest: truthy_not_Null
        simp: first_argument_def getVersion_error listDatabases_error allDocuments_error
          cleanup_error compact_error create_error destroy_error ensureFullCommit_error
          info_error list_error purge_error revisionLimit_error show_error
          temporaryView_error)
qed

theorem exists_reclassifies_not_found_witness:
  "map_of [(''error'', JStr ''not_found''), (''reason'', JStr ''no_db_file'')] ''error''
     = Some (JStr ''not_found'') \<and>
   p_callback (Database_exists sample_database (JFun ''cb'')) not_found Null
     = Inr (Invoked (JFun ''cb'') [Null, JBool False]) \<and>
   p_callback (Database_exists sample_database (JFun ''cb'')) Null
       (JObj [(''db_name'', JStr ''db''), (''doc_count'', JNum 0)])
     = Inr (Invoked (JFun ''cb'') [Null, JBool True]) \<and>
   truthy not_found \<and>
   first_argument (p_callback (Database_info sample_database (JFun ''cb'')) not_found Null)
     = Some not_found \<and>
   first_argument (p_callback (Database_create sample_database (JFun ''cb'')) not_found Null)
     = Some not_found"
  using exists_reclassifies_not_found
    [of "[(''error'', JStr ''not_found''), (''reason'', JStr ''no_db_file'')]"
        sample_database "''cb''" "JObj [(''db_name'', JStr ''db''), (''doc_count'', JNum 0)]"
        not_found]
  by (simp add: not_found_def)

text \<open>
  C7. \<open>show\<close>, \<open>temporaryView\<close> and \<open>list\<close> end in three optional parameters: a
  string (the document id, the reduce function, the view of another design), a
  mapping and the callback. Called with a mapping (a plain object) and a function
  only, each binds the mapping to its query slot and the function to its callback
  slot, and the string slot keeps its default: no document id in the path of
  \<open>show\<close>, no \<open>reduce\<close> in the body of \<open>temporaryView\<close>, no other design in the
  path of \<open>list\<close>.
\<close>

theorem mapping_and_callable_bind:
  "show_resolve qs (JObj kvs) (JFun c) Undefined
     = \<lparr> show_docId = [], show_query = ''?'' @ qs (JObj kvs), show_callback = JFun c \<rparr> \<and>
   p_path (Database_show qs db (JStr design) (JStr s) (JObj kvs) (JFun c) Undefined)
     = JStr (db_name db @ ''/_design/'' @ design @ ''/_show/'' @ s @ ''?'' @ qs (JObj kvs)) \<and>
   p_callback (Database_show qs db (JStr design) (JStr s) (JObj kvs) (JFun c) Undefined)
     = passed (JFun c) \<and>
   temporaryView_resolve (JObj kvs) (JFun c) Undefined
     = \<lparr> tv_reduce = Null, tv_params = JObj kvs, tv_callback = JFun c \<rparr> \<and>
   p_body (Database_temporaryView qs db m (JObj kvs) (JFun c) Undefined)
     = JObj [(''map'', m)] \<and>
   p_path (Database_temporaryView qs db m (JObj kvs) (JFun c) Undefined)
     = JStr (db_name db @ ''/_temp_view'' @
         (if qs (JObj kvs) \<noteq> [] then ''?'' @ qs (JObj kvs) else [])) \<and>
   p_callback (Database_temporaryView qs db m (JObj kvs) (JFun c) Undefined)
     = temporaryView_callback (JFun c) \<and>
   list_resolve qs v (JObj kvs) (JFun c) Undefined
     = \<lparr> list_params = ''?'' @ qs (JObj kvs), list_view = v, list_otherDesign = [],
         list_callback = JFun c \<rparr> \<and>
   p_path (Database_list qs db (JStr design) (JStr l) (JStr v') (JObj kvs) (JFun c) Undefined)
     = JStr (db_name db @ ''/_design/'' @ design @ ''/_list/'' @ l @ ''/'' @ v' @
         ''?'' @ qs (JObj kvs)) \<and>
   p_callback (Database_list qs db (JStr design) (JStr l) (JStr v') (JObj kvs) (JFun c) Undefined)
     = passed (JFun c)"
  by (simp add: show_resolve_def Database_show_def temporaryView_resolve_def
      Database_temporaryView_def list_resolve_def Database_list_def js_or_def Let_def
      Database_name_def)

theorem mapping_and_callable_bind_witness:
  "p_path (Database_show sample_qs sample_database (JStr ''d'') (JStr ''s'')
       (JObj [(''limit'', JNum 10)]) (JFun ''cb'') Undefined)
     = JStr ''db/_design/d/_show/s?limit=10'' \<and>
   p_path (Database_temporaryView sample_qs sample_database (JStr ''function(doc) {}'')
       (JObj [(''limit'', JNum 10)]) (JFun ''cb'') Undefined)
     = JStr ''db/_temp_view?limit=10'' \<and>
   p_path (Database_list sample_qs sample_database (JStr ''d'') (JStr ''l'') (JStr ''v'')
       (JObj [(''limit'', JNum 10)]) (JFun ''cb'') Undefined)
     = JStr ''db/_design/d/_list/l/v?limit=10''"
proof -
  have q: "sample_qs (JObj [(''limit'', JNum 10)]) = ''limit=10''"
    by code_simp
  have n: "db_name sample_database = ''db''"
    by (simp add: sample_database_def nodecouch_database_def)
  from mapping_and_callable_bind
    [of sample_qs "[(''limit'', JNum 10)]" "''cb''" sample_database "''d''" "''s''"
        "JStr ''function(doc) {}''" "JStr ''v''" "''l''" "''v''"]
  show ?thesis by (simp add: q n)
qed

text \<open>
  C8. For an id that is a string, \<open>document\<close> constructs a \<open>Design\<close> handle exactly
  when the id begins with \<open>_design/\<close> and a \<open>Document\<close> handle otherwise; for an id
  that is \<open>null\<close> or absent it constructs a \<open>Document\<close> handle.
\<close>

theorem document_selects_design:
  "Database_document this (JStr s) revision
     = Inr \<lparr> h_class = (if prefix ''_design/'' s then Design else Document),
             h_id = (if s = [] then Null else JStr s), h_revision = js_or revision Null,
             h_connection = db_connection this, h_database = this \<rparr> \<and>
   Database_document this Null revision
     = Inr \<lparr> h_class = Document, h_id = Null, h_revision = js_or revision Null,
             h_connection = db_connection this, h_database = this \<rparr> \<and>
   Database_document this Undefined revision
     = Inr \<lparr> h_class = Document, h_id = Null, h_revision = js_or revision Null,
             h_connection = db_connection this, h_database = this \<rparr>"
  by (auto simp: Database_document_def js_or_def)

theorem document_selects_design_witness:
  "map_sum id h_class (Database_document sample_database (JStr ''_design/app'') Undefined)
     = Inr Design \<and>
   map_sum id h_class (Database_document sample_database (JStr ''app/_design/'') Undefined)
     = Inr Document \<and>
   map_sum id h_class (Database_document sample_database (JStr ''_Design/app'') Undefined)
     = Inr Document \<and>
   map_sum id h_class (Database_document sample_database Null Undefined) = Inr Document \<and>
   map_sum id h_class (Database_document sample_database Undefined Undefined) = Inr Document"
  using document_selects_design [of sample_database "''_design/app''" Undefined]
        document_selects_design [of sample_database "''app/_design/''" Undefined]
        document_selects_design [of sample_database "''_Design/app''" Undefined]
  by simp

subsection \<open>The loop of listDatabases\<close>

text \<open>
  On an array of non-empty strings the loop ends with the array in which the names up
  to the index are as they were and, from the index on, the names that begin with an
  underscore are gone.
\<close>

lemma listDatabases_loop_filters:
  assumes "[] \<notin> set names"
  shows "listDatabases_loop i (JArr (map JStr names))
           = Inr (JArr (map JStr (take i names @ filter userDatabase (drop i names))))"
  using assms
proof (induction "2 * length names - i" arbitrary: names i rule: less_induct)
  case less
  show ?case
  proof (cases "i < length names")
    case False
    then show ?thesis
      by (subst listDatabases_loop.simps) simp
  next
    case True
    with less.prems have ne: "names ! i \<noteq> []" by (metis nth_mem)
    have d: "drop i names = names ! i # drop (Suc i) names"
      using True by (simp add: Cons_nth_drop_Suc)
    show ?thesis
    proof (cases "take 1 (names ! i) = ''_''")
      case u: True
      let ?names' = "take i names @ drop (Suc i) names"
      have "2 * length ?names' - i < 2 * length names - i" using True by auto
      moreover have "[] \<notin> set ?names'"
        using less.prems by (auto dest: in_set_takeD in_set_dropD)
      ultimately have ih: "listDatabases_loop i (JArr (map JStr ?names'))
           = Inr (JArr (map JStr (take i ?names' @ filter userDatabase (drop i ?names'))))"
        by (rule less.hyps)
      have t: "take i ?names' = take i names" using True by simp
      have dd: "drop i ?names' = drop (Suc i) names" using True by simp
      have "listDatabases_loop i (JArr (map JStr names))
              = listDatabases_loop i (JArr (map JStr ?names'))"
        using True ne u
        by (subst listDatabases_loop.simps) (simp add: take_map drop_map)
      with ih show ?thesis
        using u by (simp only: t dd d) (simp add: userDatabase_def)
    next
      case nu: False
      have "2 * length names - Suc i < 2 * length names - i" using True by auto
      then have ih: "listDatabases_loop (Suc i) (JArr (map JStr names))
           = Inr (JArr (map JStr
               (take (Suc i) names @ filter userDatabase (drop (Suc i) names))))"
        using less.prems by (rule less.hyps)
      have "listDatabases_loop i (JArr (map JStr names))
              = listDatabases_loop (Suc i) (JArr (map JStr names))"
        using True ne nu
        by (subst listDatabases_loop.simps) simp
      with ih show ?thesis
        using nu True by (simp add: d take_Suc_conv_app_nth userDatabase_def)
    qed
  qed
qed

text \<open>
  C9. \<open>listDatabases(cb, true)\<close> issues a GET request for \<open>_all_dbs\<close>; when the
  dispatcher delivers the list \<open>["a", "_replicator", "b"]\<close>, \<open>cb\<close> is called with
  \<open>null\<close> and \<open>["a", "b"]\<close>. For every list of non-empty names, \<open>cb\<close> gets the
  names that do not begin with an underscore, in their order.
\<close>

theorem listDatabases_removes_couch_related:
  "p_method (nodecouch_listDatabases (JFun c) (JBool True)) = JStr ''GET'' \<and>
   p_path (nodecouch_listDatabases (JFun c) (JBool True)) = JStr ''_all_dbs'' \<and>
   p_callback (nodecouch_listDatabases (JFun c) (JBool True)) Null
       (JArr [JStr ''a'', JStr ''_replicator'', JStr ''b''])
     = Inr (Invoked (JFun c) [Null, JArr [JStr ''a'', JStr ''b'']]) \<and>
   ([] \<notin> set names \<longrightarrow>
      p_callback (nodecouch_listDatabases (JFun c) (JBool True)) Null (JArr (map JStr names))
        = Inr (Invoked (JFun c) [Null, JArr (map JStr (filter userDatabase names))]))"
proof -
  have g: "[] \<notin> set names \<longrightarrow>
      p_callback (nodecouch_listDatabases (JFun c) (JBool True)) Null (JArr (map JStr names))
        = Inr (Invoked (JFun c) [Null, JArr (map JStr (filter userDatabase names))])" for names
    using listDatabases_loop_filters [of names 0]
    by (simp add: nodecouch_listDatabases_def listDatabases_callback_def)
  from g [of "[''a'', ''_replicator'', ''b'']"]
  have "p_callback (nodecouch_listDatabases (JFun c) (JBool True)) Null
       (JArr [JStr ''a'', JStr ''_replicator'', JStr ''b''])
     = Inr (Invoked (JFun c) [Null, JArr [JStr ''a'', JStr ''b'']])"
    by (simp add: userDatabase_def)
  with g show ?thesis
    by (simp add: nodecouch_listDatabases_def)
qed

theorem listDatabases_removes_couch_related_witness:
  "[] \<notin> set [''_users'', ''a'', ''_replicator'', ''b'', ''c_d''] \<and>
   p_callback (nodecouch_listDatabases (JFun ''cb'') (JBool True)) Null
       (JArr (map JStr [''_users'', ''a'', ''_replicator'', ''b'', ''c_d'']))
     = Inr (Invoked (JFun ''cb'') [Null, JArr [JStr ''a'', JStr ''b'', JStr ''c_d'']])"
  using listDatabases_removes_couch_related
    [of "''cb''" "[''_users'', ''a'', ''_replicator'', ''b'', ''c_d'']"]
  by (simp add: userDatabase_def)

section \<open>Properties of the design document\<close>

lemma own_after_put:
  "name \<noteq> ''__proto__'' \<Longrightarrow> own_or_inherited (put_prop table name v) name = v"
  by (simp add: own_or_inherited_def put_prop_def update_conv')

lemma inherited_Undefined: "name \<notin> inherited_names \<Longrightarrow> inherited name = Undefined"
proof -
  assume a: "name \<notin> inherited_names"
  then have "map_of object_prototype name = None"
    by (simp add: inherited_names_def map_of_eq_None_iff)
  with a show ?thesis by (simp add: inherited_def inherited_names_def)
qed

text \<open>
  C10, as amended. For every design document \<open>d\<close>, every name and every non-empty
  content string \<open>c\<close>, \<open>d.show(name, c)\<close> returns \<open>d\<close> itself; when the name is not
  \<open>__proto__\<close>, \<open>d.show(name)\<close> then returns \<open>c\<close>. For a name that \<open>shows\<close> does not
  hold and that plain objects do not inherit (\<open>__proto__\<close> and the members of
  \<open>Object.prototype\<close>), \<open>d.show(name)\<close> returns \<open>undefined\<close>.
\<close>

theorem design_show_set_then_get:
  "(c \<noteq> [] \<longrightarrow> fst (Design_show d name (JStr c)) = This) \<and>
   (c \<noteq> [] \<and> name \<noteq> ''__proto__'' \<longrightarrow>
      fst (Design_show (snd (Design_show d name (JStr c))) name Undefined) = Value (JStr c)) \<and>
   (name \<notin> shows_names d \<and> name \<notin> inherited_names \<longrightarrow>
      fst (Design_show d name Undefined) = Value Undefined)"
proof -
  have a: "c \<noteq> [] \<longrightarrow> fst (Design_show d name (JStr c)) = This"
    by (simp add: Design_show_def)
  have b: "c \<noteq> [] \<and> name \<noteq> ''__proto__'' \<longrightarrow>
      fst (Design_show (snd (Design_show d name (JStr c))) name Undefined) = Value (JStr c)"
    by (simp add: Design_show_def own_after_put)
  have "fst (Design_show d name Undefined) = Value Undefined"
    if n: "name \<notin> shows_names d" and i: "name \<notin> inherited_names"
  proof (cases "body_shows d")
    case None
    then show ?thesis by (simp add: Design_show_def)
  next
    case (Some table)
    with n have "map_of table name = None"
      by (simp add: shows_names_def map_of_eq_None_iff)
    with Some i show ?thesis
      by (simp add: Design_show_def own_or_inherited_def inherited_Undefined)
  qed
  with a b show ?thesis by blast
qed

theorem design_show_set_then_get_witness:
  "fst (Design_show sample_design ''page'' (JStr ''function(doc, req) {}'')) = This \<and>
   fst (Design_show (snd (Design_show sample_design ''page'' (JStr ''function(doc, req) {}'')))
        ''page'' Undefined) = Value (JStr ''function(doc, req) {}'') \<and>
   ''other'' \<notin> shows_names
      (snd (Design_show sample_design ''page'' (JStr ''function(doc, req) {}''))) \<and>
   ''other'' \<notin> inherited_names \<and>
   fst (Design_show (snd (Design_show sample_design ''page'' (JStr ''function(doc, req) {}'')))
        ''other'' Undefined) = Value Undefined"
proof -
  let ?d = "snd (Design_show sample_design ''page'' (JStr ''function(doc, req) {}''))"
  have n: "''other'' \<notin> shows_names ?d"
    by (simp add: shows_names_def Design_show_def sample_design_def put_prop_def)
  have i: "''other'' \<notin> inherited_names"
    by (simp add: inherited_names_def object_prototype_def)
  from design_show_set_then_get [of "''function(doc, req) {}''" sample_design "''page''"]
       design_show_set_then_get [of "''x''" ?d "''other''"] n i
  show ?thesis by simp
qed

text \<open>
  The claim as stated fails at names that plain objects inherit. A show function
  stored under \<open>__proto__\<close> is not read back: the assignment is ignored and the read
  returns the prototype. And \<open>toString\<close>, never set, does not read as \<open>undefined\<close>
  once \<open>shows\<close> exists: the read returns the inherited function.
\<close>

theorem design_show_inherited_counterexample:
  "fst (Design_show
         (snd (Design_show sample_design ''__proto__'' (JStr ''function(doc, req) {}'')))
         ''__proto__'' Undefined) = Value (JObj object_prototype) \<and>
   fst (Design_show
         (snd (Design_show sample_design ''__proto__'' (JStr ''function(doc, req) {}'')))
         ''__proto__'' Undefined) \<noteq> Value (JStr ''function(doc, req) {}'') \<and>
   ''toString'' \<notin> shows_names
      (snd (Design_show sample_design ''page'' (JStr ''function(doc, req) {}''))) \<and>
   fst (Design_show (snd (Design_show sample_design ''page'' (JStr ''function(doc, req) {}'')))
        ''toString'' Undefined) = Value (JFun ''Object.prototype.toString'') \<and>
   fst (Design_show (snd (Design_show sample_design ''page'' (JStr ''function(doc, req) {}'')))
        ''toString'' Undefined) \<noteq> Value Undefined"
  by (simp add: Design_show_def sample_design_def put_prop_def own_or_inherited_def
      inherited_def object_prototype_def shows_names_def)

end
